theory Spec2Isabelle
  imports Complex_Main "HOL-Library.Signed_Division" "HOL-Library.Sublist"
begin

section \<open>Characters and strings of the C++ library\<close>

text \<open>
  Character classification of \<^verbatim>\<open><cctype>\<close> in the "C" locale, on the
  byte value of the character.
\<close>

definition isspace :: "char \<Rightarrow> bool" where
  "isspace c = (let k = (of_char c :: nat) in k = 32 \<or> (9 \<le> k \<and> k \<le> 13))"

definition isdigit :: "char \<Rightarrow> bool" where
  "isdigit c = (let k = (of_char c :: nat) in 48 \<le> k \<and> k \<le> 57)"

definition isxdigit :: "char \<Rightarrow> bool" where
  "isxdigit c = (let k = (of_char c :: nat) in
     (48 \<le> k \<and> k \<le> 57) \<or> (65 \<le> k \<and> k \<le> 70) \<or> (97 \<le> k \<and> k \<le> 102))"

definition tolower :: "char \<Rightarrow> char" where
  "tolower c = (let k = (of_char c :: nat) in
     if 65 \<le> k \<and> k \<le> 90 then char_of (k + 32) else c)"

text \<open>
  \<^verbatim>\<open>s[n]\<close> on a \<^verbatim>\<open>const std::string\<close>: the character at \<open>n\<close>, and the
  null character at \<open>n = s.size()\<close>.
\<close>

definition char_at :: "string \<Rightarrow> nat \<Rightarrow> char" where
  "char_at s n = (if n < length s then s ! n else CHR 0x00)"

text \<open>\<^verbatim>\<open>s.find(sub, 0)\<close>: the first position where \<open>sub\<close> occurs, \<open>None\<close> for \<^verbatim>\<open>npos\<close>.\<close>

fun find_str :: "string \<Rightarrow> string \<Rightarrow> nat option" where
  "find_str [] sub = (if sub = [] then Some 0 else None)"
| "find_str (c # t) sub =
     (if take (length sub) (c # t) = sub then Some 0
      else map_option Suc (find_str t sub))"

text \<open>\<^verbatim>\<open>s.find_first_of(cs)\<close>: the first position of a character of \<open>cs\<close>.\<close>

fun find_first_of :: "string \<Rightarrow> string \<Rightarrow> nat option" where
  "find_first_of [] cs = None"
| "find_first_of (c # t) cs =
     (if c \<in> set cs then Some 0 else map_option Suc (find_first_of t cs))"

text \<open>\<^verbatim>\<open>s.compare(pos, len, t) == 0\<close>, for \<open>pos \<le> s.size()\<close>.\<close>

definition compare_eq :: "string \<Rightarrow> nat \<Rightarrow> nat \<Rightarrow> string \<Rightarrow> bool" where
  "compare_eq s pos len t = (take len (drop pos s) = t)"

section \<open>The literal classifier\<close>

definition isOctalDigit :: "char \<Rightarrow> bool" where
  "isOctalDigit c = (c = CHR ''0'' \<or> c = CHR ''1'' \<or> c = CHR ''2'' \<or> c = CHR ''3''
     \<or> c = CHR ''4'' \<or> c = CHR ''5'' \<or> c = CHR ''6'' \<or> c = CHR ''7'')"

definition isFloat :: "string \<Rightarrow> bool" where
  "isFloat s = (if find_str s ''.'' \<noteq> None then True
     else (find_str s ''E-'' \<noteq> None \<or> find_str s ''e-'' \<noteq> None))"

datatype cclass = Space | Digit | XDigit | OctalDigit | UnsignedLong

fun in_class :: "cclass \<Rightarrow> char \<Rightarrow> bool" where
  "in_class Space c = isspace c"
| "in_class Digit c = isdigit c"
| "in_class XDigit c = isxdigit c"
| "in_class OctalDigit c = isOctalDigit c"
| "in_class UnsignedLong c = (tolower c = CHR ''u'' \<or> tolower c = CHR ''l'')"

text \<open>The scanning loops \<^verbatim>\<open>while (test(s[n])) ++n;\<close>\<close>

function advance :: "cclass \<Rightarrow> string \<Rightarrow> nat \<Rightarrow> nat" where
  "advance k s n = (if in_class k (char_at s n) then advance k s (Suc n) else n)"
  by pat_completeness auto
termination
proof (relation "measure (\<lambda>(k, s, n). length s - n)")
  fix k s n
  assume h: "in_class k (char_at s n)"
  have "n < length s"
  proof (rule ccontr)
    assume "\<not> n < length s"
    then have "char_at s n = CHR 0x00" by (simp add: char_at_def)
    with h show False
      by (cases k) (simp_all add: isspace_def isdigit_def isxdigit_def isOctalDigit_def tolower_def)
  qed
  then show "((k, s, Suc n), (k, s, n)) \<in> measure (\<lambda>(k, s, n). length s - n)" by simp
qed simp


definition isHex :: "string \<Rightarrow> bool" where
  "isHex str = (let sign = (char_at str 0 = CHR ''-'' \<or> char_at str 0 = CHR ''+'') in
     compare_eq str (if sign then 1 else 0) 2 ''0x''
     \<or> compare_eq str (if sign then 1 else 0) 2 ''0X'')"

definition isOct :: "string \<Rightarrow> bool" where
  "isOct str = (let sign = (char_at str 0 = CHR ''-'' \<or> char_at str 0 = CHR ''+'') in
     char_at str (if sign then 1 else 0) = CHR ''0''
     \<and> (length str = 1 \<or> isOctalDigit (char_at str (if sign then 2 else 1)))
     \<and> \<not> isFloat str)"

datatype Representation = eScientific | eOctal | eHex | eDefault

text \<open>
  \<^verbatim>\<open>MathLib::isInt\<close>. The position \<open>n\<close> of the source is threaded through the
  branches; \<open>at_end\<close> is the common tail of the function (trailing whitespace, then
  \<^verbatim>\<open>n >= s.length()\<close>). In the default mode \<open>bStartsWithDigit\<close> is set when the
  loop over the digits runs at least once, that is when the character at \<open>n\<close> is a
  digit.
\<close>

definition at_end :: "string \<Rightarrow> nat \<Rightarrow> bool" where
  "at_end s n = (let n = advance Space s n in n \<ge> length s)"

definition isInt :: "string \<Rightarrow> bool" where
  "isInt s =
    (if find_str s ''.'' \<noteq> None then False
     else if find_str s ''E-'' \<noteq> None \<or> find_str s ''e-'' \<noteq> None then False
     else
       let n = advance Space s 0;
           Mode = (if find_str s ''E'' \<noteq> None then eScientific
                   else if isHex s then eHex
                   else if isOct s then eOctal
                   else eDefault);
           n = (if char_at s n = CHR ''-'' \<or> char_at s n = CHR ''+'' then Suc n else n)
       in case Mode of
            eScientific \<Rightarrow>
              (let n = advance Digit s n in
               if tolower (char_at s n) = CHR ''e'' then
                 (let n = Suc n;
                      n = (if char_at s n = CHR ''+'' then Suc n else n)
                  in if char_at s n = CHR ''-'' then False
                     else at_end s (advance Digit s n))
               else at_end s n)
          | eHex \<Rightarrow>
              at_end s (advance UnsignedLong s (advance XDigit s (Suc (Suc n))))
          | eOctal \<Rightarrow>
              at_end s (advance UnsignedLong s (advance OctalDigit s (Suc n)))
          | eDefault \<Rightarrow>
              (let bStartsWithDigit = isdigit (char_at s n);
                   n = advance UnsignedLong s (advance Digit s n)
               in if \<not> bStartsWithDigit then False else at_end s n))"

definition isNullValue :: "string \<Rightarrow> bool" where
  "isNullValue str =
     (str = ''-0'' \<or> str = ''0'' \<or> str = ''+0''
      \<or> str = ''-0.0'' \<or> str = ''0.0'' \<or> str = ''+0.0''
      \<or> str = ''-0.'' \<or> str = ''+0.''
      \<or> str = ''-0E-00'' \<or> str = ''-0E+00'' \<or> str = ''+0E+00'' \<or> str = ''+0E-00''
      \<or> str = ''-0e-00'' \<or> str = ''-0e+00'' \<or> str = ''+0e+00'' \<or> str = ''+0e-00''
      \<or> str = ''-0E-0'')"

section \<open>Stream extraction and insertion of integers\<close>

definition digit_val :: "char \<Rightarrow> nat" where
  "digit_val c = (let k = (of_char c :: nat) in
     if 48 \<le> k \<and> k \<le> 57 then k - 48
     else if 97 \<le> k \<and> k \<le> 102 then k - 87
     else if 65 \<le> k \<and> k \<le> 70 then k - 55
     else 0)"

definition is_base_digit :: "nat \<Rightarrow> char \<Rightarrow> bool" where
  "is_base_digit base c = (isxdigit c \<and> digit_val c < base)"

definition of_digits :: "nat \<Rightarrow> string \<Rightarrow> nat" where
  "of_digits base ds = foldl (\<lambda>acc c. acc * base + digit_val c) 0 ds"

text \<open>An optional sign in front of a field: whether it is \<open>-\<close>, and the rest.\<close>

definition sign_of :: "string \<Rightarrow> bool" where
  "sign_of r = (case r of [] \<Rightarrow> False | c # _ \<Rightarrow> c = CHR ''-'')"

definition skip_sign :: "string \<Rightarrow> string" where
  "skip_sign r = (case r of [] \<Rightarrow> []
     | c # t \<Rightarrow> if c = CHR ''-'' \<or> c = CHR ''+'' then t else r)"

text \<open>
  \<^verbatim>\<open>bigint ret = 0; std::istringstream istr(str); istr >> base >> ret;\<close> with
  \<open>base\<close> one of \<^verbatim>\<open>std::hex\<close> (16), \<^verbatim>\<open>std::oct\<close> (8) and the default (10):
  leading whitespace is skipped, then an optional sign, for base 16 an optional
  \<^verbatim>\<open>0x\<close> or \<^verbatim>\<open>0X\<close>, then the digits of the base. With no digit the extraction
  fails and \<open>ret\<close> is 0.
\<close>

definition extract_integer :: "nat \<Rightarrow> string \<Rightarrow> int" where
  "extract_integer base str =
     (let r = dropWhile isspace str;
          neg = sign_of r;
          r = skip_sign r;
          r = (if base = 16 \<and> (take 2 r = ''0x'' \<or> take 2 r = ''0X'') then drop 2 r else r);
          v = int (of_digits base (takeWhile (is_base_digit base) r))
      in if neg then - v else v)"

text \<open>
  Modelled from the spec: the template \<^verbatim>\<open>MathLib::toString\<close> and the type
  \<^verbatim>\<open>MathLib::bigint\<close> are declared in \<^verbatim>\<open>mathlib.h\<close>, which is not among
  the sources. The spec gives the integer as an exact signed value of arbitrary
  width, and its rendering as the base-10 digit string, with a leading \<open>-\<close> for a
  negative value and no leading \<open>+\<close>.
\<close>

type_synonym bigint = int

definition digit_char :: "nat \<Rightarrow> char" where
  "digit_char n = ''0123456789'' ! (n mod 10)"

fun digits10 :: "nat \<Rightarrow> string" where
  "digits10 n = (if n < 10 then [digit_char n]
     else digits10 (n div 10) @ [digit_char (n mod 10)])"

definition toString_bigint :: "bigint \<Rightarrow> string" where
  "toString_bigint d = (if d < 0 then CHR ''-'' # digits10 (nat (- d)) else digits10 (nat d))"

section \<open>Floating-point values\<close>

text \<open>
  The type \<^verbatim>\<open>double\<close> and its operations are a parameter of the model: a type
  \<open>'d\<close> of values with
  \<^item> \<open>from_decimal neg q\<close>, the double nearest to the number of sign \<open>neg\<close> and
    magnitude \<open>q\<close> (the conversion of decimal text by the library, and of an integer
    by \<^verbatim>\<open>static_cast<double>\<close>);
  \<^item> \<open>to_bigint\<close>, the conversion \<^verbatim>\<open>static_cast<bigint>\<close> of a double;
  \<^item> \<open>fadd\<close>, \<open>fsub\<close>, \<open>fmul\<close>, \<open>fdiv\<close>, the arithmetic of doubles;
  \<^item> \<open>strtod_other\<close>, what \<^verbatim>\<open>strtod\<close> returns for text that is not a decimal
    number (hexadecimal floating text, infinities and NaNs);
  \<^item> \<open>unset\<close>, the value of the local \<^verbatim>\<open>double ret;\<close> after an extraction
    that failed (0 since C++11, not initialised before).
\<close>

text \<open>
  Modelled from the spec: the template \<^verbatim>\<open>MathLib::toString\<close> is declared in
  \<^verbatim>\<open>mathlib.h\<close>, which is not among the sources. The spec asks of the rendering
  of a float only that it is one deterministic function of the value, with a fixed
  precision: the field \<open>toString_double\<close> of the parameter.
\<close>

record 'd fpu =
  from_decimal :: "bool \<Rightarrow> rat \<Rightarrow> 'd"
  to_bigint :: "'d \<Rightarrow> bigint"
  fadd :: "'d \<Rightarrow> 'd \<Rightarrow> 'd"
  fsub :: "'d \<Rightarrow> 'd \<Rightarrow> 'd"
  fmul :: "'d \<Rightarrow> 'd \<Rightarrow> 'd"
  fdiv :: "'d \<Rightarrow> 'd \<Rightarrow> 'd"
  strtod_other :: "string \<Rightarrow> 'd"
  unset :: "'d"
  toString_double :: "'d \<Rightarrow> string"

text \<open>The literal \<^verbatim>\<open>0.0\<close> and \<^verbatim>\<open>static_cast<double>\<close> of an integer.\<close>

definition zero :: "'d fpu \<Rightarrow> 'd" where
  "zero fp = from_decimal fp False 0"

definition of_bigint :: "'d fpu \<Rightarrow> bigint \<Rightarrow> 'd" where
  "of_bigint fp i = from_decimal fp (i < 0) (of_int \<bar>i\<bar>)"

text \<open>
  A decimal floating field, as the library reads it: an optional sign, digits, an
  optional point with digits, and an optional exponent (\<open>e\<close> or \<open>E\<close>, an optional
  sign, digits).
\<close>

record decimal_field =
  negative :: bool
  int_digits :: string
  frac_digits :: string
  exponent :: "(bool \<times> string) option"

definition scan_decimal :: "string \<Rightarrow> decimal_field" where
  "scan_decimal r =
     (let r1 = skip_sign r;
          r2 = dropWhile isdigit r1;
          point = (case r2 of [] \<Rightarrow> False | c # _ \<Rightarrow> c = CHR ''.'');
          r3 = (if point then dropWhile isdigit (tl r2) else r2);
          marker = (case r3 of [] \<Rightarrow> False | c # _ \<Rightarrow> c = CHR ''e'' \<or> c = CHR ''E'')
      in \<lparr> negative = sign_of r,
           int_digits = takeWhile isdigit r1,
           frac_digits = (if point then takeWhile isdigit (tl r2) else []),
           exponent = (if marker then
                         Some (sign_of (tl r3), takeWhile isdigit (skip_sign (tl r3)))
                       else None) \<rparr>)"

definition pow10 :: "int \<Rightarrow> rat" where
  "pow10 e = (if 0 \<le> e then 10 ^ nat e else 1 / 10 ^ nat (- e))"

definition magnitude :: "decimal_field \<Rightarrow> rat" where
  "magnitude f =
     (let e = (case exponent f of None \<Rightarrow> 0
               | Some (eneg, ds) \<Rightarrow>
                   if eneg then - int (of_digits 10 ds) else int (of_digits 10 ds))
      in of_nat (of_digits 10 (int_digits f @ frac_digits f))
           * pow10 (e - int (length (frac_digits f))))"

text \<open>
  \<^verbatim>\<open>std::istringstream istr(str); double ret; istr >> ret;\<close>: leading
  whitespace is skipped and a decimal field is read. The extraction fails when the
  field has no digit in front of the exponent, or an exponent with no digit.
\<close>

definition extract_double :: "'d fpu \<Rightarrow> string \<Rightarrow> 'd" where
  "extract_double fp str =
     (let f = scan_decimal (dropWhile isspace str) in
      if int_digits f @ frac_digits f = [] then unset fp
      else case exponent f of
             Some (eneg, []) \<Rightarrow> unset fp
           | _ \<Rightarrow> from_decimal fp (negative f) (magnitude f))"

text \<open>
  \<^verbatim>\<open>std::atof(str.c_str())\<close>: the C string ends at the first null character.
  \<^verbatim>\<open>strtod\<close> skips leading whitespace and converts the longest decimal number
  in front; an exponent with no digit is not part of it, and with no digit at all
  nothing is converted and the result is 0.0.
\<close>

definition c_str :: "string \<Rightarrow> string" where
  "c_str s = takeWhile (\<lambda>c. c \<noteq> CHR 0x00) s"

definition not_decimal :: "string \<Rightarrow> bool" where
  "not_decimal r =
     (let r1 = skip_sign r in
      take 2 r1 = ''0x'' \<or> take 2 r1 = ''0X''
      \<or> map tolower (take 3 r1) = ''inf'' \<or> map tolower (take 3 r1) = ''nan'')"

definition strtod :: "'d fpu \<Rightarrow> string \<Rightarrow> 'd" where
  "strtod fp t =
     (let r = dropWhile isspace t; f = scan_decimal r in
      if not_decimal r then strtod_other fp r
      else if int_digits f @ frac_digits f = [] then zero fp
      else case exponent f of
             Some (eneg, []) \<Rightarrow> from_decimal fp (negative f) (magnitude (f\<lparr>exponent := None\<rparr>))
           | _ \<Rightarrow> from_decimal fp (negative f) (magnitude f))"

definition atof :: "'d fpu \<Rightarrow> string \<Rightarrow> 'd" where
  "atof fp s = strtod fp (c_str s)"

section \<open>The numeric converter\<close>

definition toLongNumber :: "'d fpu \<Rightarrow> string \<Rightarrow> bigint" where
  "toLongNumber fp str =
     (if isHex str then extract_integer 16 str
      else if isOct str then extract_integer 8 str
      else if find_first_of str ''eE'' \<noteq> None then to_bigint fp (atof fp str)
      else extract_integer 10 str)"

definition toDoubleNumber :: "'d fpu \<Rightarrow> string \<Rightarrow> 'd" where
  "toDoubleNumber fp str =
     (if isHex str then of_bigint fp (toLongNumber fp str)
      else if isNullValue str then zero fp
      else extract_double fp str)"

section \<open>The arithmetic evaluator\<close>

text \<open>
  The ways a call ends without a result: the exception \<^verbatim>\<open>InternalError\<close> with
  its message, and the integer division by zero, on which the process faults. A
  result is \<open>Inr\<close> of the string.
\<close>

datatype failure = InternalError string | DivisionByZero

definition add :: "'d fpu \<Rightarrow> string \<Rightarrow> string \<Rightarrow> string" where
  "add fp first second =
     (if isInt first \<and> isInt second then
        toString_bigint (toLongNumber fp first + toLongNumber fp second)
      else toString_double fp (fadd fp (toDoubleNumber fp first) (toDoubleNumber fp second)))"

definition subtract :: "'d fpu \<Rightarrow> string \<Rightarrow> string \<Rightarrow> string" where
  "subtract fp first second =
     (if isInt first \<and> isInt second then
        toString_bigint (toLongNumber fp first - toLongNumber fp second)
      else toString_double fp (fsub fp (toDoubleNumber fp first) (toDoubleNumber fp second)))"

text \<open>
  The division of integers truncates towards zero (\<open>sdiv\<close>); with a divisor 0 it
  has no result.
\<close>

definition divide_num :: "'d fpu \<Rightarrow> string \<Rightarrow> string \<Rightarrow> failure + string" where
  "divide_num fp first second =
     (if isInt first \<and> isInt second then
        (if toLongNumber fp second = 0 then Inl DivisionByZero
         else Inr (toString_bigint (toLongNumber fp first sdiv toLongNumber fp second)))
      else Inr (toString_double fp
                  (fdiv fp (toDoubleNumber fp first) (toDoubleNumber fp second))))"

definition multiply :: "'d fpu \<Rightarrow> string \<Rightarrow> string \<Rightarrow> string" where
  "multiply fp first second =
     (if isInt first \<and> isInt second then
        toString_bigint (toLongNumber fp first * toLongNumber fp second)
      else toString_double fp (fmul fp (toDoubleNumber fp first) (toDoubleNumber fp second)))"

text \<open>
  \<^verbatim>\<open>MathLib::calculate\<close>: the switch on the action. Every case returns or
  throws, so the \<^verbatim>\<open>return "0";\<close> after the switch is never reached.
\<close>

definition calculate :: "'d fpu \<Rightarrow> string \<Rightarrow> string \<Rightarrow> char \<Rightarrow> failure + string" where
  "calculate fp first second action =
     (if action = CHR ''+'' then Inr (add fp first second)
      else if action = CHR ''-'' then Inr (subtract fp first second)
      else if action = CHR ''*'' then Inr (multiply fp first second)
      else if action = CHR ''/'' then divide_num fp first second
      else Inl (InternalError (''Unexpected action '' @ [CHR 0x27] @ [action] @ [CHR 0x27]
                  @ '' in MathLib::calculate(). Please report this to Cppcheck developers.'')))"

section \<open>The comparison evaluator\<close>

definition isEqual :: "'d fpu \<Rightarrow> string \<Rightarrow> string \<Rightarrow> bool" where
  "isEqual fp first second =
     (toString_double fp (toDoubleNumber fp first) = toString_double fp (toDoubleNumber fp second))"

definition isNotEqual :: "'d fpu \<Rightarrow> string \<Rightarrow> string \<Rightarrow> bool" where
  "isNotEqual fp first second = (\<not> isEqual fp first second)"

section \<open>The spec's descriptions\<close>

text \<open>
  The ordered scan of \<open>isInt\<close> as the spec describes it, on the text that is still
  to be read. The mode is chosen by priority; each mode's grammar consumes its part
  of the text and gives the rest, or rejects (\<open>None\<close>); a run of suffix characters
  follows in the modes other than \<open>Scientific\<close>; the token is an integer when only
  whitespace is left.
\<close>

datatype mode = Scientific | Hex | Octal | Default

definition choose_mode :: "string \<Rightarrow> mode" where
  "choose_mode s =
     (if CHR ''E'' \<in> set s then Scientific
      else if isHex s then Hex
      else if isOct s then Octal
      else Default)"

definition suffix_run :: "string \<Rightarrow> string" where
  "suffix_run r = dropWhile (\<lambda>c. c \<in> set ''uUlL'') r"

fun grammar :: "mode \<Rightarrow> string \<Rightarrow> string option" where
  "grammar Scientific r =
     (case dropWhile isdigit r of
        [] \<Rightarrow> Some []
      | c # t \<Rightarrow>
          if c = CHR ''e'' \<or> c = CHR ''E'' then
            (let t = (case t of [] \<Rightarrow> [] | p # u \<Rightarrow> if p = CHR ''+'' then u else t) in
             case t of
               [] \<Rightarrow> Some []
             | m # _ \<Rightarrow> if m = CHR ''-'' then None else Some (dropWhile isdigit t))
          else Some (c # t))"
| "grammar Hex r =
     (case r of
        z # x # t \<Rightarrow>
          if z = CHR ''0'' \<and> (x = CHR ''x'' \<or> x = CHR ''X'') then
            Some (suffix_run (dropWhile isxdigit t))
          else None
      | _ \<Rightarrow> None)"
| "grammar Octal r =
     (case r of
        [] \<Rightarrow> None
      | z # t \<Rightarrow> if z = CHR ''0'' then Some (suffix_run (dropWhile isOctalDigit t)) else None)"
| "grammar Default r =
     (if takeWhile isdigit r = [] then None else Some (suffix_run (dropWhile isdigit r)))"

definition reaches_end :: "string \<Rightarrow> bool" where
  "reaches_end r = (dropWhile isspace r = [])"

definition isInt_spec :: "string \<Rightarrow> bool" where
  "isInt_spec s =
     (if CHR ''.'' \<in> set s \<or> sublist ''E-'' s \<or> sublist ''e-'' s then False
      else case grammar (choose_mode s) (skip_sign (dropWhile isspace s)) of
             None \<Rightarrow> False
           | Some r \<Rightarrow> reaches_end r)"

text \<open>
  The integer value of a token as the spec describes it: the digits after the
  prefix in base 16, the digits in base 8, or the digits in base 10, with the sign
  in front.
\<close>

definition leading_sign :: "string \<Rightarrow> bool" where
  "leading_sign s = (char_at s 0 = CHR ''-'' \<or> char_at s 0 = CHR ''+'')"





text \<open>
  The octal test as the spec describes it: after an optional sign, a \<open>0\<close> followed
  by an octal digit or by the end of the token, and the token not floating.
\<close>

definition isOct_spec :: "string \<Rightarrow> bool" where
  "isOct_spec s =
     (let r = (if leading_sign s then tl s else s) in
      (case r of
         [] \<Rightarrow> False
       | z # t \<Rightarrow> z = CHR ''0'' \<and> (case t of [] \<Rightarrow> True | d # _ \<Rightarrow> isOctalDigit d))
      \<and> \<not> isFloat s)"


text \<open>The message of the exception thrown by \<^verbatim>\<open>MathLib::calculate\<close>.\<close>

definition unexpected_action :: "char \<Rightarrow> string" where
  "unexpected_action c = ''Unexpected action '' @ [CHR 0x27] @ [c] @ [CHR 0x27]
     @ '' in MathLib::calculate(). Please report this to Cppcheck developers.''"

section \<open>Notions for the proofs\<close>



text \<open>
  An instance of the parameter: exact arithmetic on the rationals, with the
  conversion to an integer truncating towards zero.
\<close>

definition exact_fpu :: "rat fpu" where
  "exact_fpu =
     \<lparr> from_decimal = (\<lambda>neg q. if neg then - q else q),
       to_bigint = (\<lambda>x. if x < 0 then - \<lfloor>- x\<rfloor> else \<lfloor>x\<rfloor>),
       fadd = (\<lambda>x y. x + y), fsub = (\<lambda>x y. x - y),
       fmul = (\<lambda>x y. x * y), fdiv = (\<lambda>x y. x / y),
       strtod_other = (\<lambda>t. 0), unset = 0,
       toString_double = (\<lambda>x. toString_bigint (if x < 0 then - \<lfloor>- x\<rfloor> else \<lfloor>x\<rfloor>)) \<rparr>"

text \<open>The first character of a text, the null character when it is empty.\<close>

definition head :: "string \<Rightarrow> char" where
  "head r = (case r of [] \<Rightarrow> CHR 0x00 | c # _ \<Rightarrow> c)"

section \<open>Positions and suffixes\<close>

declare advance.simps [simp del]

lemma char_at_Cons [simp]: "char_at (c # r) 0 = c" "char_at (c # r) (Suc n) = char_at r n"
  by (simp_all add: char_at_def)

lemma char_at_Nil [simp]: "char_at [] n = CHR 0x00"
  by (simp add: char_at_def)

lemma head_simps [simp]: "head [] = CHR 0x00" "head (c # r) = c"
  by (simp_all add: head_def)

lemma drop_char_at: "n < length s \<Longrightarrow> drop n s = char_at s n # drop (Suc n) s"
  by (simp add: char_at_def Cons_nth_drop_Suc)

lemma char_at_Cons_drop:
  assumes "drop n s = c # r"
  shows "char_at s n = c \<and> n < length s \<and> drop (Suc n) s = r"
proof -
  from assms have l: "n < length s" by (cases "n < length s") simp_all
  from drop_char_at [OF l] assms show ?thesis using l by simp
qed

lemma take2_eq: "take 2 xs = [a, b] \<longleftrightarrow> (\<exists>r. xs = a # b # r)"
  by (cases xs; cases "tl xs") (auto simp: numeral_2_eq_2)

lemma drop_eq_Cons2:
  "drop p s = a # b # r \<longleftrightarrow>
     (Suc p < length s \<and> char_at s p = a \<and> char_at s (Suc p) = b \<and> drop (Suc (Suc p)) s = r)"
proof
  assume r: "drop p s = a # b # r"
  from char_at_Cons_drop [OF r] have 1: "char_at s p = a" "drop (Suc p) s = b # r" by simp_all
  from char_at_Cons_drop [OF 1(2)] 1
  show "Suc p < length s \<and> char_at s p = a \<and> char_at s (Suc p) = b \<and> drop (Suc (Suc p)) s = r"
    by simp
next
  assume h: "Suc p < length s \<and> char_at s p = a \<and> char_at s (Suc p) = b
    \<and> drop (Suc (Suc p)) s = r"
  then have "p < length s" by simp
  from drop_char_at [OF this] h drop_char_at [of "Suc p" s]
  show "drop p s = a # b # r" by simp
qed

lemma compare_eq_2:
  "compare_eq s p 2 [a, b] \<longleftrightarrow>
     (Suc p < length s \<and> char_at s p = a \<and> char_at s (Suc p) = b)"
  by (auto simp: compare_eq_def take2_eq drop_eq_Cons2)

lemma isHex_iff:
  "isHex s \<longleftrightarrow>
     (let p = (if char_at s 0 = CHR ''-'' \<or> char_at s 0 = CHR ''+'' then 1 else 0) in
      Suc p < length s \<and> char_at s p = CHR ''0''
      \<and> (char_at s (Suc p) = CHR ''x'' \<or> char_at s (Suc p) = CHR ''X''))"
  by (auto simp: isHex_def Let_def compare_eq_2)

lemma char_at_head: "char_at s n = head (drop n s)"
proof (cases "n < length s")
  case True
  from drop_char_at [OF this] show ?thesis by (simp add: head_def)
next
  case False
  then show ?thesis by (simp add: head_def char_at_def)
qed

lemma drop_Suc_tl: "drop (Suc n) s = tl (drop n s)"
  by (simp add: drop_Suc tl_drop)


section \<open>Characters\<close>

lemma char_eq_code: "(c = d) = ((of_char c :: nat) = of_char d)"
  by simp


lemma tolower_eq_iff:
  assumes "97 \<le> (of_char d :: nat)" "(of_char d :: nat) \<le> 122"
  shows "tolower c = d \<longleftrightarrow> (c = d \<or> (of_char c :: nat) + 32 = of_char d)"
proof (cases "65 \<le> (of_char c :: nat) \<and> (of_char c :: nat) \<le> 90")
  case True
  then have "tolower c = char_of ((of_char c :: nat) + 32)" by (simp add: tolower_def)
  moreover have "(of_char (char_of ((of_char c :: nat) + 32)) :: nat) = of_char c + 32"
    using True by (simp add: of_char_of)
  ultimately have "(of_char (tolower c) :: nat) = of_char c + 32" by simp
  moreover have "c \<noteq> d" using True assms by auto
  ultimately show ?thesis by (metis of_char_eq_iff)
next
  case False
  then have "tolower c = c" by (auto simp: tolower_def Let_def)
  moreover have "(of_char c :: nat) + 32 \<noteq> of_char d" using False assms by auto
  ultimately show ?thesis by simp
qed

lemma tolower_e: "tolower c = CHR ''e'' \<longleftrightarrow> c = CHR ''e'' \<or> c = CHR ''E''"
proof -
  have "(of_char c :: nat) + 32 = of_char CHR ''e'' \<longleftrightarrow> c = CHR ''E''"
    by (simp add: char_eq_code [of c])
  then show ?thesis using tolower_eq_iff [of "CHR ''e''" c] by simp
qed

lemma tolower_u: "tolower c = CHR ''u'' \<longleftrightarrow> c = CHR ''u'' \<or> c = CHR ''U''"
proof -
  have "(of_char c :: nat) + 32 = of_char CHR ''u'' \<longleftrightarrow> c = CHR ''U''"
    by (simp add: char_eq_code [of c])
  then show ?thesis using tolower_eq_iff [of "CHR ''u''" c] by simp
qed

lemma tolower_l: "tolower c = CHR ''l'' \<longleftrightarrow> c = CHR ''l'' \<or> c = CHR ''L''"
proof -
  have "(of_char c :: nat) + 32 = of_char CHR ''l'' \<longleftrightarrow> c = CHR ''L''"
    by (simp add: char_eq_code [of c])
  then show ?thesis using tolower_eq_iff [of "CHR ''l''" c] by simp
qed



lemma not_space_sign: "\<not> isspace CHR ''-''" "\<not> isspace CHR ''+''" "\<not> isspace CHR ''0''"
  by (simp_all add: isspace_def)




lemma in_class_NUL: "\<not> in_class k (CHR 0x00)"
  by (cases k) (simp_all add: isspace_def isdigit_def isxdigit_def isOctalDigit_def tolower_def)

lemma in_class_funs:
  "in_class Space = isspace" "in_class Digit = isdigit" "in_class XDigit = isxdigit"
  "in_class OctalDigit = isOctalDigit"
  "in_class UnsignedLong = (\<lambda>c. c \<in> set ''uUlL'')"
  by (rule ext, auto simp: tolower_u tolower_l)+







section \<open>Evaluation on concrete tokens\<close>

lemmas classify_defs = isHex_def isOct_def compare_eq_def char_at_def isFloat_def isOctalDigit_def

lemmas scan_defs = isInt_def at_end_def advance.simps isspace_def isdigit_def isxdigit_def
  tolower_e tolower_u tolower_l Let_def

lemmas integer_defs = extract_integer_def isspace_def sign_of_def skip_sign_def is_base_digit_def
  isxdigit_def digit_val_def of_digits_def toString_bigint_def digit_char_def

lemmas double_defs = toDoubleNumber_def isNullValue_def extract_double_def scan_decimal_def
  isspace_def sign_of_def skip_sign_def isdigit_def magnitude_def of_digits_def digit_val_def
  pow10_def

lemma isInt_examples:
  "isInt ''10''" "isInt ''20''" "isInt ''1''" "isInt ''0''" "isInt ''-0''"
  "isInt ''7''" "isInt ''2''" "\<not> isInt ''10.5''"
  by (simp_all add: scan_defs classify_defs)

lemma toLongNumber_examples:
  "toLongNumber fp ''10'' = 10" "toLongNumber fp ''20'' = 20" "toLongNumber fp ''1'' = 1"
  "toLongNumber fp ''0'' = 0" "toLongNumber fp ''-0'' = 0" "toLongNumber fp ''7'' = 7"
  "toLongNumber fp ''2'' = 2"
  by (simp_all add: toLongNumber_def classify_defs integer_defs)

lemma isHex_position:
  "(if char_at s 0 = CHR ''-'' \<or> char_at s 0 = CHR ''+'' then 1 else 0) \<le> length s"
  by (cases s) auto


section \<open>The rendering of integers\<close>

declare digits10.simps [simp del]











section \<open>The shape of hexadecimal and octal tokens\<close>

lemma isHex_cases:
  assumes "isHex s"
  obtains (signed) sg x r where "s = sg # CHR ''0'' # x # r" "sg = CHR ''-'' \<or> sg = CHR ''+''"
      "x = CHR ''x'' \<or> x = CHR ''X''"
  | (plain) x r where "s = CHR ''0'' # x # r" "x = CHR ''x'' \<or> x = CHR ''X''"
proof (cases "char_at s 0 = CHR ''-'' \<or> char_at s 0 = CHR ''+''")
  case True
  then obtain t where t: "s = char_at s 0 # t" by (cases s) auto
  from assms True have "take 2 (drop 1 s) = ''0x'' \<or> take 2 (drop 1 s) = ''0X''"
    by (simp add: isHex_def compare_eq_def)
  then obtain x r where "drop 1 s = CHR ''0'' # x # r" "x = CHR ''x'' \<or> x = CHR ''X''"
    by (auto simp: take2_eq)
  with t True signed show ?thesis by (cases s) auto
next
  case False
  with assms have "take 2 s = ''0x'' \<or> take 2 s = ''0X''"
    by (simp add: isHex_def compare_eq_def)
  then obtain x r where "s = CHR ''0'' # x # r" "x = CHR ''x'' \<or> x = CHR ''X''"
    by (auto simp: take2_eq)
  with plain show ?thesis by blast
qed

lemma isOct_cases:
  assumes "isOct s"
  obtains (zero) "s = ''0''"
  | (signed) sg d r where "s = sg # CHR ''0'' # d # r" "sg = CHR ''-'' \<or> sg = CHR ''+''"
      "isOctalDigit d"
  | (plain) d r where "s = CHR ''0'' # d # r" "isOctalDigit d"
proof (cases "char_at s 0 = CHR ''-'' \<or> char_at s 0 = CHR ''+''")
  case True
  then obtain sg t where t: "s = sg # t" "sg = CHR ''-'' \<or> sg = CHR ''+''" by (cases s) auto
  with assms have a: "char_at t 0 = CHR ''0''" "length t = 0 \<or> isOctalDigit (char_at t 1)"
    by (auto simp: isOct_def numeral_2_eq_2)
  then obtain u where u: "t = CHR ''0'' # u" by (cases t) auto
  with a have "isOctalDigit (char_at u 0)" by simp
  then obtain d r where "u = d # r" "isOctalDigit d" by (cases u) (auto simp: isOctalDigit_def)
  with t u signed show ?thesis by blast
next
  case False
  with assms have a: "char_at s 0 = CHR ''0''" "length s = 1 \<or> isOctalDigit (char_at s 1)"
    by (auto simp: isOct_def)
  then obtain u where u: "s = CHR ''0'' # u" by (cases s) auto
  show ?thesis
  proof (cases u)
    case Nil
    with u zero show ?thesis by simp
  next
    case (Cons d r)
    with a u have "isOctalDigit d" by simp
    with Cons u plain show ?thesis by blast
  qed
qed

lemma hex_shape:
  assumes "isHex s"
  shows "\<exists>x t. skip_sign (dropWhile isspace s) = CHR ''0'' # x # t
        \<and> (x = CHR ''x'' \<or> x = CHR ''X'')"
  using assms
proof (cases rule: isHex_cases)
  case (signed sg x r)
  then have "skip_sign (dropWhile isspace s) = CHR ''0'' # x # r"
    by (auto simp: not_space_sign skip_sign_def)
  with signed show ?thesis by blast
next
  case (plain x r)
  then have "skip_sign (dropWhile isspace s) = CHR ''0'' # x # r"
    by (auto simp: not_space_sign skip_sign_def)
  with plain show ?thesis by blast
qed

lemma oct_shape:
  assumes "isOct s"
  shows "\<exists>t. skip_sign (dropWhile isspace s) = CHR ''0'' # t"
  using assms
proof (cases rule: isOct_cases)
  case zero
  then show ?thesis by (simp add: not_space_sign skip_sign_def)
next
  case (signed sg d r)
  then have "skip_sign (dropWhile isspace s) = CHR ''0'' # d # r"
    by (auto simp: not_space_sign skip_sign_def)
  then show ?thesis by blast
next
  case (plain d r)
  then have "skip_sign (dropWhile isspace s) = CHR ''0'' # d # r"
    by (auto simp: not_space_sign skip_sign_def)
  then show ?thesis by blast
qed

lemma NUL_not_octal: "\<not> isOctalDigit (CHR 0x00)"
  by (simp add: isOctalDigit_def)

lemma isOct_exact: "isOct s = (isOct_spec s \<and> s \<noteq> ''-0'' \<and> s \<noteq> ''+0'')"
proof (cases s)
  case Nil
  then show ?thesis by (simp add: isOct_def isOct_spec_def leading_sign_def)
next
  case (Cons c t)
  show ?thesis
  proof (cases "c = CHR ''-'' \<or> c = CHR ''+''")
    case True
    show ?thesis
    proof (cases t)
      case Nil
      with Cons True show ?thesis by (auto simp: isOct_def isOct_spec_def leading_sign_def)
    next
      case (Cons z u)
      with \<open>s = c # t\<close> True show ?thesis
        by (cases u) (auto simp: isOct_def isOct_spec_def leading_sign_def numeral_2_eq_2
            NUL_not_octal)
    qed
  next
    case False
    with Cons show ?thesis
      by (cases t) (auto simp: isOct_def isOct_spec_def leading_sign_def)
  qed
qed

section \<open>The integer extractions\<close>






section \<open>The scan on the text that is left\<close>

lemma advance_step:
  "in_class k (char_at s n) \<Longrightarrow> advance k s n = advance k s (Suc n)"
  "\<not> in_class k (char_at s n) \<Longrightarrow> advance k s n = n"
  by (simp_all add: advance.simps [of k s n])

lemma advance_drop:
  "drop (advance k s n) s = dropWhile (in_class k) (drop n s)"
proof (induction k s n rule: advance.induct)
  case (1 k s n)
  show ?case
  proof (cases "in_class k (char_at s n)")
    case True
    then have l: "n < length s"
      using in_class_NUL [of k] by (cases "n < length s") (auto simp: char_at_def)
    from True 1 drop_char_at [OF l] show ?thesis by (simp add: advance_step)
  next
    case False
    then show ?thesis
      by (cases "n < length s") (simp_all add: drop_char_at advance_step)
  qed
qed

lemma at_end_drop: "at_end s n = reaches_end (drop n s)"
proof -
  have "at_end s n = (drop (advance Space s n) s = [])"
    by (simp add: at_end_def)
  also have "drop (advance Space s n) s = dropWhile (in_class Space) (drop n s)"
    by (rule advance_drop)
  also have "in_class Space = isspace" by (rule ext) simp
  finally show ?thesis by (simp add: reaches_end_def)
qed

lemma find_str_sublist: "find_str s sub = None \<longleftrightarrow> \<not> sublist sub s"
proof (induction s)
  case Nil
  then show ?case by auto
next
  case (Cons c t)
  have "take (length sub) (c # t) = sub \<longleftrightarrow> prefix sub (c # t)"
    by (metis prefix_def append_take_drop_id append_eq_conv_conj)
  with Cons show ?case by (simp add: sublist_Cons_right)
qed

lemma sublist_single: "sublist [c] s \<longleftrightarrow> c \<in> set s"
  by (induction s) (auto simp: sublist_Cons_right)

lemmas cursor = char_at_head drop_Suc_tl advance_drop at_end_drop in_class_funs
  if_distrib [of "\<lambda>n. drop n s" for s]

lemma scientific_suffix:
  "(let n = advance Digit s n in
      if tolower (char_at s n) = CHR ''e'' then
        (let n = Suc n;
             n = (if char_at s n = CHR ''+'' then Suc n else n)
         in if char_at s n = CHR ''-'' then False
            else at_end s (advance Digit s n))
      else at_end s n)
   = (case grammar Scientific (drop n s) of None \<Rightarrow> False | Some r \<Rightarrow> reaches_end r)"
  by (auto simp: Let_def cursor tolower_e simp del: dropWhile_eq_Nil_conv split: list.splits)

lemma hex_suffix:
  assumes "drop n s = CHR ''0'' # x # t" "x = CHR ''x'' \<or> x = CHR ''X''"
  shows "at_end s (advance UnsignedLong s (advance XDigit s (Suc (Suc n))))
    = (case grammar Hex (drop n s) of None \<Rightarrow> False | Some r \<Rightarrow> reaches_end r)"
  using assms by (auto simp: cursor suffix_run_def)

lemma octal_suffix:
  assumes "drop n s = CHR ''0'' # t"
  shows "at_end s (advance UnsignedLong s (advance OctalDigit s (Suc n)))
    = (case grammar Octal (drop n s) of None \<Rightarrow> False | Some r \<Rightarrow> reaches_end r)"
  using assms by (auto simp: cursor suffix_run_def)

lemma default_suffix:
  "(let bStartsWithDigit = isdigit (char_at s n);
        n = advance UnsignedLong s (advance Digit s n)
    in if \<not> bStartsWithDigit then False else at_end s n)
    = (case grammar Default (drop n s) of None \<Rightarrow> False | Some r \<Rightarrow> reaches_end r)"
  by (cases "drop n s") (auto simp: cursor suffix_run_def Let_def isdigit_def)

lemma sign_suffix:
  "drop (if char_at s n = CHR ''-'' \<or> char_at s n = CHR ''+'' then Suc n else n) s
     = skip_sign (drop n s)"
  by (cases "drop n s") (auto simp: cursor skip_sign_def)

lemma isInt_refines: "isInt s = isInt_spec s"
proof (cases "CHR ''.'' \<in> set s \<or> sublist ''E-'' s \<or> sublist ''e-'' s")
  case True
  then have "find_str s ''.'' \<noteq> None \<or> find_str s ''E-'' \<noteq> None \<or> find_str s ''e-'' \<noteq> None"
    by (simp add: find_str_sublist sublist_single)
  then have "\<not> isInt s" by (auto simp: isInt_def)
  with True show ?thesis by (simp add: isInt_spec_def)
next
  case False
  define n where "n = (let n = advance Space s 0 in
    if char_at s n = CHR ''-'' \<or> char_at s n = CHR ''+'' then Suc n else n)"
  have dn: "drop n s = skip_sign (dropWhile isspace s)"
    unfolding n_def Let_def by (simp add: sign_suffix advance_drop in_class_funs)
  from False have pre: "find_str s ''.'' = None" "find_str s ''E-'' = None"
    "find_str s ''e-'' = None"
    by (simp_all add: find_str_sublist sublist_single)
  have E: "find_str s ''E'' = None \<longleftrightarrow> CHR ''E'' \<notin> set s"
    by (simp add: find_str_sublist sublist_single)
  from False have spec: "isInt_spec s =
    (case grammar (choose_mode s) (drop n s) of None \<Rightarrow> False | Some r \<Rightarrow> reaches_end r)"
    by (simp add: isInt_spec_def dn)
  show ?thesis
  proof (cases "choose_mode s")
    case Scientific
    then have m: "CHR ''E'' \<in> set s" by (auto simp: choose_mode_def split: if_splits)
    have "isInt s =
      (let n = advance Digit s n in
       if tolower (char_at s n) = CHR ''e'' then
         (let n = Suc n;
              n = (if char_at s n = CHR ''+'' then Suc n else n)
          in if char_at s n = CHR ''-'' then False
             else at_end s (advance Digit s n))
       else at_end s n)"
      using pre E m by (simp add: isInt_def n_def Let_def)
    also have "\<dots> = (case grammar Scientific (drop n s) of None \<Rightarrow> False
        | Some r \<Rightarrow> reaches_end r)"
      by (rule scientific_suffix)
    finally show ?thesis using spec Scientific by simp
  next
    case Hex
    then have m: "CHR ''E'' \<notin> set s" "isHex s" by (auto simp: choose_mode_def split: if_splits)
    from hex_shape [OF m(2)] dn obtain x t where d: "drop n s = CHR ''0'' # x # t" "x = CHR ''x'' \<or> x = CHR ''X''"
      by auto
    have "isInt s = at_end s (advance UnsignedLong s (advance XDigit s (Suc (Suc n))))"
      using pre E m by (simp add: isInt_def n_def Let_def)
    also have "\<dots> = (case grammar Hex (drop n s) of None \<Rightarrow> False | Some r \<Rightarrow> reaches_end r)"
      using d by (rule hex_suffix)
    finally show ?thesis using spec Hex by simp
  next
    case Octal
    then have m: "CHR ''E'' \<notin> set s" "\<not> isHex s" "isOct s"
      by (auto simp: choose_mode_def split: if_splits)
    from oct_shape [OF m(3)] dn obtain t where d: "drop n s = CHR ''0'' # t" by auto
    have "isInt s = at_end s (advance UnsignedLong s (advance OctalDigit s (Suc n)))"
      using pre E m by (simp add: isInt_def n_def Let_def)
    also have "\<dots> = (case grammar Octal (drop n s) of None \<Rightarrow> False | Some r \<Rightarrow> reaches_end r)"
      using d by (rule octal_suffix)
    finally show ?thesis using spec Octal by simp
  next
    case Default
    then have m: "CHR ''E'' \<notin> set s" "\<not> isHex s" "\<not> isOct s"
      by (auto simp: choose_mode_def split: if_splits)
    have "isInt s =
      (let bStartsWithDigit = isdigit (char_at s n);
           n = advance UnsignedLong s (advance Digit s n)
       in if \<not> bStartsWithDigit then False else at_end s n)"
      using pre E m by (simp add: isInt_def n_def Let_def)
    also have "\<dots> = (case grammar Default (drop n s) of None \<Rightarrow> False
        | Some r \<Rightarrow> reaches_end r)"
      by (rule default_suffix)
    finally show ?thesis using spec Default by simp
  qed
qed

section \<open>Signs\<close>









section \<open>The conversion through a double\<close>
















section \<open>The claims\<close>




text \<open>
  C2. \<open>isInt\<close> is the ordered scan of the spec: no point and no \<open>E-\<close> or \<open>e-\<close>
  in the token; the mode by priority (an uppercase \<open>E\<close>, else hexadecimal, else
  octal, else the default); leading whitespace and one optional sign skipped; the
  grammar of the mode consumed (rejecting a \<open>-\<close> after the exponent mark, a missing
  digit in the default mode); the suffix run in the modes other than the scientific
  one; trailing whitespace skipped; and the end of the token reached.
\<close>

theorem isInt_ordered_scan:
  "isInt s = isInt_spec s
   \<and> isInt ''0x1AuL '' \<and> isInt '' +12E+3 '' \<and> \<not> isInt ''3.14'' \<and> \<not> isInt ''12E+3AA''
   \<and> \<not> isInt ''u''"
proof -
  have "isInt ''0x1AuL ''" "isInt '' +12E+3 ''" "\<not> isInt ''3.14''" "\<not> isInt ''12E+3AA''"
    "\<not> isInt ''u''"
    by (simp_all add: scan_defs classify_defs)
  then show ?thesis by (simp add: isInt_refines)
qed

theorem isInt_ordered_scan_witness:
  "isInt_spec ''0x1AuL '' \<and> isInt_spec '' +12E+3 '' \<and> \<not> isInt_spec ''0xE''
   \<and> \<not> isInt_spec ''12e3'' \<and> isInt_spec ''017L''"
proof -
  have "isInt ''0x1AuL ''" "isInt '' +12E+3 ''" "\<not> isInt ''0xE''" "\<not> isInt ''12e3''"
    "isInt ''017L''"
    by (simp_all add: scan_defs classify_defs)
  with isInt_ordered_scan [of "''0x1AuL ''"] isInt_ordered_scan [of "'' +12E+3 ''"]
    isInt_ordered_scan [of "''0xE''"] isInt_ordered_scan [of "''12e3''"]
    isInt_ordered_scan [of "''017L''"]
  show ?thesis by simp
qed

text \<open>
  C3. \<open>calculate\<close> returns what \<open>add\<close>, \<open>subtract\<close>, \<open>multiply\<close> and \<open>divide\<close>
  return for the actions \<open>+\<close>, \<open>-\<close>, \<open>*\<close> and \<open>/\<close>. For every other action it
  ends with the internal error and its message, never with a string; so it does for
  the action \<open>%\<close> on \<open>1\<close> and \<open>2\<close>.
\<close>

theorem calculate_dispatch:
  "calculate fp first second CHR ''+'' = Inr (add fp first second)
   \<and> calculate fp first second CHR ''-'' = Inr (subtract fp first second)
   \<and> calculate fp first second CHR ''*'' = Inr (multiply fp first second)
   \<and> calculate fp first second CHR ''/'' = divide_num fp first second
   \<and> (action \<notin> {CHR ''+'', CHR ''-'', CHR ''*'', CHR ''/''} \<longrightarrow>
        calculate fp first second action = Inl (InternalError (unexpected_action action))
        \<and> (\<forall>r. calculate fp first second action \<noteq> Inr r))
   \<and> calculate fp ''1'' ''2'' CHR ''%'' = Inl (InternalError (unexpected_action CHR ''%''))"
  by (simp add: calculate_def unexpected_action_def)

theorem calculate_dispatch_witness:
  "\<forall>fp :: 'd fpu. CHR ''^'' \<notin> {CHR ''+'', CHR ''-'', CHR ''*'', CHR ''/''}
     \<and> calculate fp ''1'' ''2'' CHR ''^'' = Inl (InternalError (unexpected_action CHR ''^''))
     \<and> calculate fp ''1'' ''2'' CHR ''+'' = Inr ''3''"
proof
  fix fp :: "'d fpu"
  have a: "CHR ''^'' \<notin> {CHR ''+'', CHR ''-'', CHR ''*'', CHR ''/''}" by simp
  have b: "add fp ''1'' ''2'' = ''3''"
    by (simp add: add_def isInt_examples toLongNumber_examples toString_bigint_def
        digits10.simps digit_char_def)
  from calculate_dispatch [of fp "''1''" "''2''" "CHR ''^''"] a b
  show "CHR ''^'' \<notin> {CHR ''+'', CHR ''-'', CHR ''*'', CHR ''/''}
     \<and> calculate fp ''1'' ''2'' CHR ''^'' = Inl (InternalError (unexpected_action CHR ''^''))
     \<and> calculate fp ''1'' ''2'' CHR ''+'' = Inr ''3''"
    by simp
qed

text \<open>
  C4. \<open>isEqual\<close> compares the rendered texts of the two doubles, not the doubles,
  and \<open>isNotEqual\<close> is its negation. \<open>0.1\<close> and \<open>1.0E-1\<close> are equal: both texts
  denote one tenth, so both convert to the same double, whatever the rounding and the
  rendering are. (With a rendering that drops the fraction, \<open>0.5\<close> and \<open>0.25\<close> are
  equal too, though their doubles differ.)
\<close>

theorem isEqual_by_text:
  "isEqual fp a b =
     (toString_double fp (toDoubleNumber fp a) = toString_double fp (toDoubleNumber fp b))
   \<and> isNotEqual fp a b = (\<not> isEqual fp a b)
   \<and> isEqual fp ''0.1'' ''1.0E-1''"
proof -
  have "toDoubleNumber fp ''0.1'' = from_decimal fp False (1 / 10)"
    "toDoubleNumber fp ''1.0E-1'' = from_decimal fp False (1 / 10)"
    by (simp_all add: double_defs classify_defs)
  then show ?thesis by (simp add: isEqual_def isNotEqual_def)
qed

theorem isEqual_by_text_witness:
  "(\<forall>fp :: 'd fpu. isEqual fp ''0.1'' ''1.0E-1'' \<and> \<not> isNotEqual fp ''0.1'' ''1.0E-1''
      \<and> isEqual fp ''2'' ''2.0'')
   \<and> isEqual exact_fpu ''0.5'' ''0.25''
   \<and> toDoubleNumber exact_fpu ''0.5'' \<noteq> toDoubleNumber exact_fpu ''0.25''"
proof -
  have g: "isEqual fp ''0.1'' ''1.0E-1'' \<and> \<not> isNotEqual fp ''0.1'' ''1.0E-1''
      \<and> isEqual fp ''2'' ''2.0''" for fp :: "'d fpu"
  proof -
    have "toDoubleNumber fp ''2'' = from_decimal fp False 2"
      "toDoubleNumber fp ''2.0'' = from_decimal fp False 2"
      by (simp_all add: double_defs classify_defs)
    with isEqual_by_text [of fp "''0.1''" "''1.0E-1''"] isEqual_by_text [of fp "''2''" "''2.0''"]
    show ?thesis by simp
  qed
  have d: "toDoubleNumber exact_fpu ''0.5'' = 1 / 2"
    "toDoubleNumber exact_fpu ''0.25'' = 1 / 4"
    by (simp_all add: double_defs classify_defs exact_fpu_def)
  have f: "\<lfloor>1 / 2 :: rat\<rfloor> = 0" "\<lfloor>1 / 4 :: rat\<rfloor> = 0"
    by (simp_all add: floor_eq_iff)
  have t: "toString_double exact_fpu (toDoubleNumber exact_fpu ''0.5'')
      = toString_double exact_fpu (toDoubleNumber exact_fpu ''0.25'')"
    unfolding d by (simp add: exact_fpu_def f)
  have n: "toDoubleNumber exact_fpu ''0.5'' \<noteq> toDoubleNumber exact_fpu ''0.25''"
    unfolding d by simp
  from isEqual_by_text [of exact_fpu "''0.5''" "''0.25''"] t
  have "isEqual exact_fpu ''0.5'' ''0.25''" by blast
  with g n show ?thesis by blast
qed



text \<open>
  C6. The octal test against the spec's description. The two agree on every token
  but the signed zeros: \<open>-0\<close> and \<open>+0\<close> are a \<open>0\<close> followed by the end of the token
  after the sign, and not floating, yet \<open>isOct\<close> is false of them, while it is true
  of \<open>0\<close>. The test for the end of the token is \<^verbatim>\<open>str.size() == 1\<close>, with or
  without a sign.
\<close>

theorem isOct_signed_zero:
  "isOct s = (isOct_spec s \<and> s \<noteq> ''-0'' \<and> s \<noteq> ''+0'')
   \<and> isOct_spec ''-0'' \<and> isOct_spec ''+0'' \<and> \<not> isOct ''-0'' \<and> \<not> isOct ''+0''
   \<and> isOct ''0''"
proof -
  have "isOct_spec ''-0''" "isOct_spec ''+0''" "\<not> isOct ''-0''" "\<not> isOct ''+0''" "isOct ''0''"
    by (simp_all add: isOct_spec_def leading_sign_def classify_defs)
  then show ?thesis using isOct_exact [of s] by simp
qed

theorem isOct_signed_zero_witness:
  "isOct ''0'' \<and> \<not> isOct ''-0'' \<and> \<not> isOct ''+0'' \<and> isOct ''-017'' \<and> isOct_spec ''-017''"
proof -
  have "isOct ''-017''" by (simp add: classify_defs)
  with isOct_signed_zero [of "''-017''"] show ?thesis by simp
qed






text \<open>
  Whether rendering after parsing is idempotent is a property of the rendering of
  doubles and of their rounding, which are parameters here. What the converter
  itself does with two spellings of the negative zero: \<open>-0.00\<close> is read with its sign, while \<open>-0\<close>, a null-value spelling, gives
  the literal 0.0.
\<close>

lemma negative_zero_spellings:
  "toDoubleNumber fp ''-0.00'' = from_decimal fp True 0
   \<and> toDoubleNumber fp ''-0'' = from_decimal fp False 0"
  by (simp add: double_defs classify_defs zero_def)

text \<open>
  C10. A token is never classified both hexadecimal and octal: where \<open>isHex\<close> holds,
  the character after the leading \<open>0\<close> is \<open>x\<close> or \<open>X\<close>, which is no octal digit,
  and the token is longer than the single \<open>0\<close>.
\<close>

theorem hex_oct_exclusive: "\<not> (isHex s \<and> isOct s)"
  by (auto simp: isHex_iff isOct_def isOctalDigit_def Let_def numeral_2_eq_2 split: if_splits)

theorem hex_oct_exclusive_witness:
  "isHex ''0x1A'' \<and> \<not> isOct ''0x1A'' \<and> isOct ''017'' \<and> \<not> isHex ''017''"
  using hex_oct_exclusive [of "''0x1A''"] hex_oct_exclusive [of "''017''"]
  by (simp add: isHex_def isOct_def compare_eq_def char_at_def isFloat_def isOctalDigit_def)

end
